theory Spec2Isabelle
  imports Main "HOL-Library.Sublist"
begin

section \<open>Text\<close>

text \<open>
  Python text is a sequence of Unicode code points. It is modelled as \<^typ>\<open>string\<close>,
  a character standing for the code point of its own number: the model covers text over
  the code points U+0000 to U+00FF. On this range the classes below are
  the ones of Python 3: \<open>is_space\<close> is \<^verbatim>\<open>str.isspace\<close>, which is also the class
  \<^verbatim>\<open>\s\<close> of \<^verbatim>\<open>re\<close> and what \<^verbatim>\<open>str.strip\<close> removes; \<open>is_word\<close> is the class
  \<^verbatim>\<open>\w\<close> of \<^verbatim>\<open>re\<close> on \<^verbatim>\<open>str\<close> patterns (the alphanumeric characters and the
  underscore); \<open>lower_char\<close> is \<^verbatim>\<open>str.lower\<close> on one character.
\<close>

definition in_range :: "nat \<Rightarrow> nat \<Rightarrow> char \<Rightarrow> bool" where
  "in_range lo hi c = (lo \<le> of_char c \<and> of_char c \<le> hi)"

text \<open>White space: U+0009 to U+000D, U+001C to U+0020, U+0085 and U+00A0.\<close>

definition is_space :: "char \<Rightarrow> bool" where
  "is_space c =
     (in_range 0x09 0x0D c \<or> in_range 0x1C 0x20 c \<or> c = CHR 0x85 \<or> c = CHR 0xA0)"

text \<open>
  Word characters: the digits, the letters A to Z and a to z, the underscore, and
  beyond ASCII the characters U+00AA, U+00B2, U+00B3, U+00B5, U+00B9, U+00BA, U+00BC to
  U+00BE and the letters U+00C0 to U+00FF without the signs U+00D7 and U+00F7.
\<close>

definition is_word :: "char \<Rightarrow> bool" where
  "is_word c =
     (in_range 0x30 0x39 c \<or> in_range 0x41 0x5A c \<or> c = CHR 0x5F \<or> in_range 0x61 0x7A c \<or>
      c = CHR 0xAA \<or> in_range 0xB2 0xB3 c \<or> c = CHR 0xB5 \<or> in_range 0xB9 0xBA c \<or>
      in_range 0xBC 0xBE c \<or> in_range 0xC0 0xD6 c \<or> in_range 0xD8 0xF6 c \<or>
      in_range 0xF8 0xFF c)"

text \<open>
  Lower case: the capitals A to Z, U+00C0 to U+00D6 and U+00D8 to U+00DE have their small
  letter 32 code points further on; every other character stays as it is.
\<close>

definition lower_char :: "char \<Rightarrow> char" where
  "lower_char c =
     (if in_range 0x41 0x5A c \<or> in_range 0xC0 0xD6 c \<or> in_range 0xD8 0xDE c
      then char_of (of_char c + (0x20 :: nat)) else c)"

definition lower :: "string \<Rightarrow> string" where
  "lower s = map lower_char s"

definition strip :: "string \<Rightarrow> string" where
  "strip s = rev (dropWhile is_space (rev (dropWhile is_space s)))"

text \<open>\<^verbatim>\<open>re.sub(r'[^\w\s]', '', s)\<close>: every character that is neither a word character
  nor white space is deleted.\<close>

definition sub_non_word :: "string \<Rightarrow> string" where
  "sub_non_word s = filter (\<lambda>c. is_word c \<or> is_space c) s"

text \<open>\<^verbatim>\<open>s.startswith(p)\<close> and \<^verbatim>\<open>p in s\<close> on text.\<close>

definition startswith :: "string \<Rightarrow> string \<Rightarrow> bool" where
  "startswith s p = prefix p s"

definition contains :: "string \<Rightarrow> string \<Rightarrow> bool" where
  "contains s p = sublist p s"

text \<open>\<^verbatim>\<open>sep.join(xs)\<close>.\<close>

fun join :: "string \<Rightarrow> string list \<Rightarrow> string" where
  "join sep [] = []"
| "join sep [x] = x"
| "join sep (x # y # ys) = x @ sep @ join sep (y # ys)"

section \<open>Labels, results and the environment\<close>

text \<open>
  Modelled from the spec: the enumeration \<^verbatim>\<open>common.label.Label\<close> is not part of the
  sources at hand. The spec names the members SUPPORTED, REFUTED, NOT_ENOUGH_INFO and
  REFUSED_TO_ANSWER; their string values are a parameter (\<open>value_of\<close> below).
\<close>

datatype label = SUPPORTED | REFUTED | NOT_ENOUGH_INFO | REFUSED_TO_ANSWER

definition Label_members :: "label list" where
  "Label_members = [SUPPORTED, REFUTED, NOT_ENOUGH_INFO, REFUSED_TO_ANSWER]"

datatype py_error = ValueError | NameError | TypeError | AttributeError

record search_result =
  query :: string
  result :: "string option"

record final_answer =
  response :: string
  answer :: string

datatype engine = Google | Wiki | DuckDuck

text \<open>
  Everything the three modules use and the sources do not contain is a field of the
  environment: the values of the labels, the constants of \<^verbatim>\<open>safe.config\<close>, the helpers
  of \<^verbatim>\<open>common.utils\<close>, \<^verbatim>\<open>extract_knowledge\<close>, the prompt templates, Python's
  formatting of a list, and the two external services. The generation service and the
  search backends are not functions of their argument alone: \<open>generate e k p\<close> is the
  answer of the \<open>k\<close>-th generation call of a session when it is given the prompt \<open>p\<close>,
  and likewise for the backends with the number of the search call. The two budgets
  \<open>max_steps\<close> and \<open>max_retries\<close> are counts and are natural numbers; the document
  that \<^verbatim>\<open>JudgePrompt\<close> renders is given by its text.
\<close>

record env =
  value_of :: "label \<Rightarrow> string"
  max_steps :: nat
  max_retries :: nat
  is_guardrail_hit :: "string \<Rightarrow> bool"
  extract_last_code_span :: "string \<Rightarrow> string"
  extract_first_square_brackets :: "string \<Rightarrow> string"
  extract_first_code_block :: "string \<Rightarrow> string"
  extract_knowledge :: "search_result list \<Rightarrow> string"
  JudgePrompt :: "string \<Rightarrow> label list \<Rightarrow> string"
  ReasonPrompt :: "string \<Rightarrow> string \<Rightarrow> label list \<Rightarrow> string"
  ReasonPrompt2 :: "string \<Rightarrow> string \<Rightarrow> string"
  SearchPrompt :: "string \<Rightarrow> string \<Rightarrow> string \<Rightarrow> string"
  SummarizePrompt :: "string \<Rightarrow> string \<Rightarrow> string"
  str_of_list :: "string list \<Rightarrow> string"
  generate :: "nat \<Rightarrow> string \<Rightarrow> string"
  search_engine :: engine
  serper_run :: "nat \<Rightarrow> string \<Rightarrow> string"
  wiki_search :: "nat \<Rightarrow> string \<Rightarrow> string"
  duckduck_run :: "nat \<Rightarrow> string \<Rightarrow> string"

text \<open>
  The state of one session: how many generation calls and how many search calls have
  been made, and the attribute \<^verbatim>\<open>latest_reasoning\<close> of the judge.
\<close>

record session =
  generated :: nat
  searched :: nat
  latest_reasoning :: "string option"

text \<open>\<^verbatim>\<open>Label(s)\<close>: the member whose value is \<open>s\<close>; ValueError when there is none.\<close>

definition Label_call :: "env \<Rightarrow> string \<Rightarrow> py_error + label" where
  "Label_call e s =
     (case find (\<lambda>l. value_of e l = s) Label_members of
        None \<Rightarrow> Inl ValueError
      | Some l \<Rightarrow> Inr l)"

section \<open>Judge\<close>

text \<open>The loop \<^verbatim>\<open>for c in self.classes: if c.value in answer: return c\<close> of
  \<^verbatim>\<open>Judge._extract_verdict\<close>; \<open>None\<close> when the loop runs to its end.\<close>

fun first_class_in :: "env \<Rightarrow> label list \<Rightarrow> string \<Rightarrow> label option" where
  "first_class_in e [] ans = None"
| "first_class_in e (c # cs) ans =
     (if contains ans (value_of e c) then Some c else first_class_in e cs ans)"

definition normalized_answer :: "string \<Rightarrow> string" where
  "normalized_answer span = lower (strip (sub_non_word span))"

definition extract_verdict :: "env \<Rightarrow> label list \<Rightarrow> string \<Rightarrow> label" where
  "extract_verdict e classes resp =
     (let ans = normalized_answer (extract_last_code_span e resp) in
      if ans = [] then REFUSED_TO_ANSWER
      else case Label_call e ans of
             Inr verdict \<Rightarrow> verdict
           | Inl err \<Rightarrow>
               (case first_class_in e classes ans of
                  Some c \<Rightarrow> c
                | None \<Rightarrow> REFUSED_TO_ANSWER))"

text \<open>
  A response carries no valid label when its normalized token is empty, or is the value
  of no member of the enumeration and contains the value of no candidate.
\<close>

definition no_valid_label :: "env \<Rightarrow> label list \<Rightarrow> string \<Rightarrow> bool" where
  "no_valid_label e classes resp =
     (let ans = normalized_answer (extract_last_code_span e resp) in
      ans = [] \<or>
      (\<not> list_ex (\<lambda>l. value_of e l = ans) Label_members \<and>
       \<not> list_ex (\<lambda>c. contains ans (value_of e c)) classes))"

text \<open>\<^verbatim>\<open>Judge._generate_verdict\<close>: one generation, the guardrail test, the extraction.\<close>

definition generate_verdict :: "env \<Rightarrow> label list \<Rightarrow> string \<Rightarrow> session \<Rightarrow> label \<times> session" where
  "generate_verdict e classes prompt st =
     (let resp = generate e (generated st) prompt;
          st' = st\<lparr>generated := Suc (generated st), latest_reasoning := Some resp\<rparr>
      in if is_guardrail_hit e resp then (REFUSED_TO_ANSWER, st')
         else (extract_verdict e classes resp, st'))"

text \<open>The loop of \<^verbatim>\<open>Judge.judge\<close>: generate again while the verdict is
  REFUSED_TO_ANSWER, until \<^verbatim>\<open>n_retries\<close> exceeds \<^verbatim>\<open>max_retries\<close>.\<close>

function judge_loop :: "env \<Rightarrow> label list \<Rightarrow> string \<Rightarrow> nat \<Rightarrow> session \<Rightarrow> label \<times> session" where
  "judge_loop e classes prompt n_retries st =
     (let (verdict, st') = generate_verdict e classes prompt st in
      if verdict = REFUSED_TO_ANSWER then
        (if Suc n_retries > max_retries e then (verdict, st')
         else judge_loop e classes prompt (Suc n_retries) st')
      else (verdict, st'))"
  by pat_completeness auto
termination
  by (relation "measure (\<lambda>(e, classes, prompt, n_retries, st). max_retries e - n_retries)") auto

definition judge :: "env \<Rightarrow> label list \<Rightarrow> string \<Rightarrow> session \<Rightarrow> label \<times> session" where
  "judge e classes doc st = judge_loop e classes (JudgePrompt e doc classes) 0 st"

text \<open>\<^verbatim>\<open>valid_labels = [label.value.lower() for label in Label]\<close>.\<close>

definition valid_labels :: "env \<Rightarrow> string list" where
  "valid_labels e = map (\<lambda>l. lower (value_of e l)) Label_members"

definition select_prompt :: "env \<Rightarrow> string" where
  "select_prompt e =
     ''Respond with one word! From '' @ str_of_list e (valid_labels e) @
     '', select the most fitting for the following string:'' @ [CHR 0x0A]"

text \<open>\<^verbatim>\<open>Judge.maybe_get_final_answer\<close>. Its return type in the source is
  \<^verbatim>\<open>FinalAnswer | None\<close>.\<close>

definition maybe_get_final_answer ::
  "env \<Rightarrow> label list \<Rightarrow> string \<Rightarrow> search_result list \<Rightarrow> session \<Rightarrow> final_answer option \<times> session" where
  "maybe_get_final_answer e classes claim evidence st =
     (let knowledge = extract_knowledge e evidence;
          reason_prompt = ReasonPrompt e claim knowledge classes;
          model_response = generate e (generated st) reason_prompt;
          st1 = st\<lparr>generated := Suc (generated st)\<rparr>
      in if is_guardrail_hit e model_response
         then (Some \<lparr>response = model_response, answer = ''refused''\<rparr>, st1)
         else
           let ans = strip (sub_non_word (extract_first_square_brackets e model_response)) in
           if model_response \<noteq> [] \<and> lower ans \<in> set (valid_labels e)
           then (Some \<lparr>response = model_response, answer = ans\<rparr>, st1)
           else
             let adjusted_response =
                   lower (generate e (generated st1) (select_prompt e @ model_response));
                 st2 = st1\<lparr>generated := Suc (generated st1)\<rparr>;
                 adjusted_response' =
                   (if adjusted_response \<notin> set (valid_labels e)
                    then value_of e REFUSED_TO_ANSWER else adjusted_response)
             in (Some \<lparr>response = model_response, answer = adjusted_response'\<rparr>, st2))"

text \<open>The loop of \<^verbatim>\<open>Judge.reason\<close>:
  \<^verbatim>\<open>while not final_answer and num_tries <= self.max_retries\<close>. A \<^verbatim>\<open>FinalAnswer\<close>
  object is true in a condition, \<^verbatim>\<open>None\<close> is false.\<close>

function reason_loop ::
  "env \<Rightarrow> label list \<Rightarrow> string \<Rightarrow> search_result list \<Rightarrow> final_answer option \<Rightarrow> nat \<Rightarrow> session
   \<Rightarrow> final_answer option \<times> nat \<times> session" where
  "reason_loop e classes claim evidence fa num_tries st =
     (if fa = None \<and> num_tries \<le> max_retries e then
        (let (fa', st') = maybe_get_final_answer e classes claim evidence st in
         reason_loop e classes claim evidence fa' (Suc num_tries) st')
      else (fa, num_tries, st))"
  by pat_completeness auto
termination
  by (relation "measure (\<lambda>(e, classes, claim, evidence, fa, num_tries, st).
        Suc (max_retries e) - num_tries)") auto

text \<open>What \<^verbatim>\<open>Judge.reason\<close> does after its loop.\<close>

definition reason_result :: "env \<Rightarrow> final_answer option \<Rightarrow> py_error + (label \<times> string)" where
  "reason_result e fa =
     (case fa of
        None \<Rightarrow> Inr (REFUTED, [])
      | Some a \<Rightarrow>
          (case Label_call e (lower (answer a)) of
             Inl err \<Rightarrow> Inl err
           | Inr predicted_label \<Rightarrow> Inr (predicted_label, response a)))"

definition reason ::
  "env \<Rightarrow> label list \<Rightarrow> string \<Rightarrow> search_result list \<Rightarrow> session
   \<Rightarrow> (py_error + (label \<times> string)) \<times> session" where
  "reason e classes claim evidence st =
     (let (fa, num_tries, st') = reason_loop e classes claim evidence None 0 st
      in (reason_result e fa, st'))"

section \<open>Reasoner\<close>

text \<open>
  \<^verbatim>\<open>reasoner.py\<close> holds an unresolved merge conflict in its imports; the model takes the
  incoming side, which imports \<^verbatim>\<open>ReasonPrompt\<close> (on the other side the name
  \<^verbatim>\<open>ReasonPrompt\<close> is unbound and every call ends in NameError at once). The template
  is called with two arguments here (\<open>ReasonPrompt2\<close>). The name \<^verbatim>\<open>labels\<close> of the
  last branch is bound nowhere in the module: formatting the string \<^verbatim>\<open>select\<close>
  raises NameError before the second generation.
\<close>

definition results_of :: "search_result list \<Rightarrow> py_error + string list" where
  "results_of evidence =
     (if list_ex (\<lambda>s. result s = None) evidence then Inl TypeError
      else Inr (map (\<lambda>s. the (result s)) evidence))"

definition Reasoner_maybe_get_final_answer ::
  "env \<Rightarrow> string \<Rightarrow> search_result list \<Rightarrow> session \<Rightarrow> py_error + (final_answer option \<times> session)" where
  "Reasoner_maybe_get_final_answer e claim evidence st =
     (case results_of evidence of
        Inl err \<Rightarrow> Inl err
      | Inr results \<Rightarrow>
          let knowledge = join [CHR 0x0A] results;
              reason_prompt = ReasonPrompt2 e claim knowledge;
              model_response = generate e (generated st) reason_prompt;
              st1 = st\<lparr>generated := Suc (generated st)\<rparr>
          in if startswith model_response ''I cannot''
             then Inr (Some \<lparr>response = model_response, answer = ''Refused''\<rparr>, st1)
             else
               let ans = strip (sub_non_word (extract_first_square_brackets e model_response)) in
               if model_response \<noteq> [] \<and> ans \<in> set (map (value_of e) Label_members)
               then Inr (Some \<lparr>response = model_response, answer = ans\<rparr>, st1)
               else Inl NameError)"

function Reasoner_loop ::
  "env \<Rightarrow> string \<Rightarrow> search_result list \<Rightarrow> final_answer option \<Rightarrow> nat \<Rightarrow> session
   \<Rightarrow> py_error + (final_answer option \<times> nat \<times> session)" where
  "Reasoner_loop e claim evidence fa num_tries st =
     (if fa = None \<and> num_tries \<le> max_retries e then
        (case Reasoner_maybe_get_final_answer e claim evidence st of
           Inl err \<Rightarrow> Inl err
         | Inr (fa', st') \<Rightarrow> Reasoner_loop e claim evidence fa' (Suc num_tries) st')
      else Inr (fa, num_tries, st))"
  by pat_completeness auto
termination
  by (relation "measure (\<lambda>(e, claim, evidence, fa, num_tries, st).
        Suc (max_retries e) - num_tries)") auto

definition Reasoner_reason ::
  "env \<Rightarrow> string \<Rightarrow> search_result list \<Rightarrow> session \<Rightarrow> py_error + ((label \<times> string) \<times> session)" where
  "Reasoner_reason e claim evidence st =
     (case Reasoner_loop e claim evidence None 0 st of
        Inl err \<Rightarrow> Inl err
      | Inr (fa, num_tries, st') \<Rightarrow>
          (case fa of
             None \<Rightarrow> Inl AttributeError
           | Some a \<Rightarrow>
               (case Label_call e (answer a) of
                  Inl err \<Rightarrow> Inl err
                | Inr predicted_label \<Rightarrow> Inr ((predicted_label, response a), st'))))"

section \<open>Searcher\<close>

definition or_NA :: "string \<Rightarrow> string" where
  "or_NA s = (if s = [] then ''N/A'' else s)"

definition present_results :: "search_result list \<Rightarrow> string list" where
  "present_results past_searches =
     map (\<lambda>s. the (result s)) (filter (\<lambda>s. result s \<noteq> None) past_searches)"

definition post_process_query :: "env \<Rightarrow> string \<Rightarrow> session \<Rightarrow> string \<times> session" where
  "post_process_query e model_response st =
     (let instruction =
            ''Extract a simple sentence that I can use for a Google Search query from this string:''
            @ [CHR 0x0A];
          q = generate e (generated st) (instruction @ model_response)
      in (filter (\<lambda>c. c \<noteq> CHR 0x0A) q, st\<lparr>generated := Suc (generated st)\<rparr>))"

definition call_api :: "env \<Rightarrow> string \<Rightarrow> session \<Rightarrow> string \<times> session" where
  "call_api e search_query st =
     ((case search_engine e of
         Google \<Rightarrow> serper_run e (searched st) search_query
       | Wiki \<Rightarrow> wiki_search e (searched st) search_query
       | DuckDuck \<Rightarrow> duckduck_run e (searched st) search_query),
      st\<lparr>searched := Suc (searched st)\<rparr>)"

definition mixer :: "string \<Rightarrow> string \<Rightarrow> string" where
  "mixer claim q =
     ''This is the CLAIM: '' @ [CHR 0x27] @ claim @ [CHR 0x27] @
     ''. You have tried this QUERY: '' @ [CHR 0x27] @ q @ [CHR 0x27] @
     '' but the search result was '' @ replicate 16 CHR 0x20 @
     ''irrelevant to the claim. Change the QUERY to extract important knowledge about the CLAIM. Answer only with the new query: ''"

text \<open>\<^verbatim>\<open>Searcher._maybe_get_next_search\<close>. Its return type in the source is
  \<^verbatim>\<open>SearchResult | None\<close>.\<close>

definition maybe_get_next_search ::
  "env \<Rightarrow> string \<Rightarrow> search_result list \<Rightarrow> bool \<Rightarrow> session \<Rightarrow> search_result option \<times> session" where
  "maybe_get_next_search e claim past_searches summarize st =
     (let past_results = present_results past_searches;
          knowledge = or_NA (join [CHR 0x0A] past_results);
          past_queries = map query past_searches;
          past_queries_str = or_NA (join [CHR 0x0A] past_queries);
          search_prompt = SearchPrompt e claim knowledge past_queries_str;
          generated_text = generate e (generated st) search_prompt;
          st1 = st\<lparr>generated := Suc (generated st)\<rparr>;
          model_response = filter (\<lambda>c. c \<noteq> CHR 0x22) generated_text;
          model_response =
            (if startswith model_response ''I cannot'' \<or> startswith model_response ''I'm sorry''
             then ''['' @ claim @ '']'' else model_response);
          q = extract_first_code_block e model_response;
          (q, st2) = (if q = [] then post_process_query e model_response st1 else (q, st1));
          (q, st3) =
            (if q \<in> set past_queries
             then (generate e (generated st2) (mixer claim q),
                   st2\<lparr>generated := Suc (generated st2)\<rparr>)
             else (q, st2));
          (r, st4) = call_api e q st3;
          res = (if r \<in> set past_results then None else Some r);
          (res, st5) =
            (case res of
               None \<Rightarrow> (None, st4)
             | Some r' \<Rightarrow>
                 if summarize \<and> length r' > 728
                 then (Some (generate e (generated st4) (SummarizePrompt e q r')),
                       st4\<lparr>generated := Suc (generated st4)\<rparr>)
                 else (Some r', st4))
      in (Some \<lparr>query = q, result = res\<rparr>, st5))"

definition sufficiency_prompt :: "string \<Rightarrow> search_result list \<Rightarrow> string" where
  "sufficiency_prompt claim past_searches =
     (let knowledge = or_NA (join [CHR 0x0A] (present_results past_searches));
          instruction =
            ''Given the following INFORMATION, determine if it is enough to conclusively decide '' @
            ''whether the CLAIM is true or false with high certainty. If the INFORMATION is sufficient, '' @
            ''respond 'sufficient'. Otherwise, respond 'insufficient'. '' @
            ''If you are in doubt or need more information, respond 'insufficient'. '' @
            ''Respond with only one word.''
      in instruction @ [CHR 0x5C] @ ''INFORMATION:'' @ [CHR 0x0A] @ knowledge @
         [CHR 0x5C] @ ''CLAIM:'' @ claim)"

definition sufficient_knowledge ::
  "env \<Rightarrow> string \<Rightarrow> search_result list \<Rightarrow> session \<Rightarrow> bool \<times> session" where
  "sufficient_knowledge e claim past_searches st =
     (let model_decision = generate e (generated st) (sufficiency_prompt claim past_searches)
      in (lower model_decision = ''sufficient'', st\<lparr>generated := Suc (generated st)\<rparr>))"

text \<open>The inner loop of \<^verbatim>\<open>Searcher.search\<close>:
  \<^verbatim>\<open>while not next_search and num_tries <= self.max_retries\<close>.\<close>

function next_search_loop ::
  "env \<Rightarrow> string \<Rightarrow> search_result list \<Rightarrow> bool \<Rightarrow> search_result option \<Rightarrow> nat \<Rightarrow> session
   \<Rightarrow> search_result option \<times> nat \<times> session" where
  "next_search_loop e claim search_results summarize next_search num_tries st =
     (if next_search = None \<and> num_tries \<le> max_retries e then
        (let (next_search', st') = maybe_get_next_search e claim search_results summarize st in
         next_search_loop e claim search_results summarize next_search' (Suc num_tries) st')
      else (next_search, num_tries, st))"
  by pat_completeness auto
termination
  by (relation "measure (\<lambda>(e, claim, search_results, summarize, next_search, num_tries, st).
        Suc (max_retries e) - num_tries)") auto

text \<open>The test \<^verbatim>\<open>next_search is None or not next_search.result\<close> and the
  \<^verbatim>\<open>append\<close> of its other branch.\<close>

definition unsuccessful :: "search_result option \<Rightarrow> bool" where
  "unsuccessful next_search =
     (case next_search of
        None \<Rightarrow> True
      | Some s \<Rightarrow> (case result s of None \<Rightarrow> True | Some r \<Rightarrow> r = []))"

definition append_search :: "search_result list \<Rightarrow> search_result option \<Rightarrow> search_result list" where
  "append_search search_results next_search =
     (if unsuccessful next_search then search_results
      else search_results @ [the next_search])"

text \<open>One pass through the body of the \<^verbatim>\<open>for\<close> loop, up to the sufficiency test.\<close>

definition search_step ::
  "env \<Rightarrow> string \<Rightarrow> bool \<Rightarrow> search_result list \<Rightarrow> session \<Rightarrow> search_result list \<times> session" where
  "search_step e claim summarize search_results st =
     (let (next_search, num_tries, st') =
            next_search_loop e claim search_results summarize None 0 st
      in (append_search search_results next_search, st'))"

text \<open>
  The \<^verbatim>\<open>for\<close> loop of \<^verbatim>\<open>Searcher.search\<close> with \<open>n\<close> passes left. Beside the
  evidence store the model returns the list of the stores as they were after each pass,
  the latest first: its length is the number of search steps of the session.
\<close>

fun search_loop ::
  "env \<Rightarrow> string \<Rightarrow> bool \<Rightarrow> bool \<Rightarrow> nat \<Rightarrow> search_result list \<Rightarrow> search_result list list \<Rightarrow> session
   \<Rightarrow> search_result list \<times> search_result list list \<times> session" where
  "search_loop e claim limit_search summarize 0 search_results steps st =
     (search_results, steps, st)"
| "search_loop e claim limit_search summarize (Suc n) search_results steps st =
     (let (search_results', st1) = search_step e claim summarize search_results st in
      if limit_search then
        (let (sufficient, st2) = sufficient_knowledge e claim search_results' st1 in
         if sufficient then (search_results', search_results' # steps, st2)
         else search_loop e claim limit_search summarize n search_results'
                (search_results' # steps) st2)
      else search_loop e claim limit_search summarize n search_results'
             (search_results' # steps) st1)"

definition search ::
  "env \<Rightarrow> string \<Rightarrow> bool \<Rightarrow> bool \<Rightarrow> session
   \<Rightarrow> search_result list \<times> search_result list list \<times> session" where
  "search e claim limit_search summarize st =
     search_loop e claim limit_search summarize (max_steps e) [] [] st"

section \<open>An example environment\<close>

text \<open>
  Modelled from the spec: \<^verbatim>\<open>common.utils\<close> is not part of the sources. The spec
  describes its helpers as pulling the first bracket-delimited token, the last code
  span and the first fenced block out of a response, and the refusal patterns as the
  prefixes "I cannot" and "I'm sorry". The functions below do that; they are used
  for the concrete runs only, never in a general statement.
\<close>

fun after_marker :: "string \<Rightarrow> string \<Rightarrow> string option" where
  "after_marker m [] = None"
| "after_marker m (x # xs) =
     (if prefix m (x # xs) then Some (drop (length m) (x # xs)) else after_marker m xs)"

fun upto_marker :: "string \<Rightarrow> string \<Rightarrow> string option" where
  "upto_marker m [] = None"
| "upto_marker m (x # xs) =
     (if prefix m (x # xs) then Some []
      else case upto_marker m xs of None \<Rightarrow> None | Some t \<Rightarrow> Some (x # t))"

definition delimited :: "string \<Rightarrow> string \<Rightarrow> string \<Rightarrow> string" where
  "delimited opening closing s =
     (case after_marker opening s of
        None \<Rightarrow> []
      | Some t \<Rightarrow> (case upto_marker closing t of None \<Rightarrow> [] | Some b \<Rightarrow> b))"

definition first_square_brackets :: "string \<Rightarrow> string" where
  "first_square_brackets s = delimited ''['' '']'' s"

definition last_code_span :: "string \<Rightarrow> string" where
  "last_code_span s = rev (delimited [CHR 0x60] [CHR 0x60] (rev s))"

definition first_code_block :: "string \<Rightarrow> string" where
  "first_code_block s = strip (delimited (replicate 3 CHR 0x60) (replicate 3 CHR 0x60) s)"

definition refusal :: "string \<Rightarrow> bool" where
  "refusal s = (startswith s ''I cannot'' \<or> startswith s ''I'm sorry'')"

definition quoted_list :: "string list \<Rightarrow> string" where
  "quoted_list xs = ''['' @ join '', '' (map (\<lambda>x. [CHR 0x27] @ x @ [CHR 0x27]) xs) @ '']''"

fun example_value :: "label \<Rightarrow> string" where
  "example_value SUPPORTED = ''supported''"
| "example_value REFUTED = ''refuted''"
| "example_value NOT_ENOUGH_INFO = ''not enough info''"
| "example_value REFUSED_TO_ANSWER = ''refused''"

text \<open>The example environment for a generation service \<open>gen\<close>, a search backend
  \<open>backend\<close> and the two budgets.\<close>

definition example_env ::
  "(nat \<Rightarrow> string \<Rightarrow> string) \<Rightarrow> (nat \<Rightarrow> string \<Rightarrow> string) \<Rightarrow> nat \<Rightarrow> nat \<Rightarrow> env" where
  "example_env gen backend steps retries =
     \<lparr>value_of = example_value,
      max_steps = steps,
      max_retries = retries,
      is_guardrail_hit = refusal,
      extract_last_code_span = last_code_span,
      extract_first_square_brackets = first_square_brackets,
      extract_first_code_block = first_code_block,
      extract_knowledge = (\<lambda>evidence. join [CHR 0x0A] (present_results evidence)),
      JudgePrompt = (\<lambda>doc classes. ''Judge: '' @ doc),
      ReasonPrompt = (\<lambda>claim knowledge classes. ''Claim: '' @ claim @ '' Knowledge: '' @ knowledge),
      ReasonPrompt2 = (\<lambda>claim knowledge. ''Claim: '' @ claim @ '' Knowledge: '' @ knowledge),
      SearchPrompt = (\<lambda>claim knowledge past_queries. ''Search: '' @ claim),
      SummarizePrompt = (\<lambda>q r. ''Summarize: '' @ r),
      str_of_list = quoted_list,
      generate = gen,
      search_engine = Google,
      serper_run = backend,
      wiki_search = backend,
      duckduck_run = backend\<rparr>"

definition start :: session where
  "start = \<lparr>generated = 0, searched = 0, latest_reasoning = None\<rparr>"

text \<open>A query in a fenced block, as the search prompt asks for it.\<close>

definition fenced :: "string \<Rightarrow> string" where
  "fenced q = replicate 3 CHR 0x60 @ q @ replicate 3 CHR 0x60"

text \<open>The scenario of the spec for the claim "The sky is green.": the model proposes
  a query, finds the evidence insufficient, proposes a second query and finds the
  evidence sufficient.\<close>

definition sky_model :: "nat \<Rightarrow> string \<Rightarrow> string" where
  "sky_model k p =
     (if k = 0 then fenced ''sky color''
      else if k = 1 then ''insufficient''
      else if k = 2 then fenced ''why is the sky blue''
      else ''Sufficient'')"

definition sky_backend :: "nat \<Rightarrow> string \<Rightarrow> string" where
  "sky_backend k q = ''Result for '' @ q"

text \<open>A model that proposes two different queries, and a backend that answers every
  query with the same text.\<close>

definition two_query_model :: "nat \<Rightarrow> string \<Rightarrow> string" where
  "two_query_model k p = (if k = 0 then fenced ''sky color'' else fenced ''blue sky'')"

definition same_backend :: "nat \<Rightarrow> string \<Rightarrow> string" where
  "same_backend k q = ''The sky is blue.''"

text \<open>
  A model that proposes the query \<open>sky color\<close> in both steps and, asked for a different
  query, answers \<open>sky color\<close> once more; its other answers are the summaries of the
  results. The backend is a function of the query alone and returns a text of 729
  characters.
\<close>

definition repeating_model :: "nat \<Rightarrow> string \<Rightarrow> string" where
  "repeating_model k p =
     (if k = 0 then fenced ''sky color''
      else if k = 1 then ''The sky is blue.''
      else if k = 2 then fenced ''sky color''
      else if k = 3 then ''sky color''
      else ''The sky looks blue.'')"

definition long_backend :: "nat \<Rightarrow> string \<Rightarrow> string" where
  "long_backend k q = replicate 729 CHR ''a''"

text \<open>A model without an opinion.\<close>

definition unsure_model :: "nat \<Rightarrow> string \<Rightarrow> string" where
  "unsure_model k p = ''I do not know''"

declare judge_loop.simps [simp del]
declare reason_loop.simps [simp del]
declare Reasoner_loop.simps [simp del]
declare next_search_loop.simps [simp del]

section \<open>Properties\<close>

subsection \<open>The tie-break of the verdict extractor\<close>

lemma first_class_in_index:
  "i < length classes \<Longrightarrow> contains ans (value_of e (classes ! i)) \<Longrightarrow>
   (\<forall>j<i. \<not> contains ans (value_of e (classes ! j))) \<Longrightarrow>
   first_class_in e classes ans = Some (classes ! i)"
proof (induction classes arbitrary: i)
  case Nil
  then show ?case by simp
next
  case (Cons c cs)
  show ?case
  proof (cases i)
    case 0
    with Cons.prems show ?thesis by simp
  next
    case (Suc n)
    from Cons.prems Suc have c: "\<not> contains ans (value_of e c)"
      by (metis nth_Cons_0 zero_less_Suc)
    have later: "\<forall>j<n. \<not> contains ans (value_of e (cs ! j))"
    proof (intro allI impI)
      fix j assume "j < n"
      then have "Suc j < i" using Suc by simp
      with Cons.prems(3) show "\<not> contains ans (value_of e (cs ! j))"
        by (metis nth_Cons_Suc)
    qed
    from Cons.prems Suc have "n < length cs" "contains ans (value_of e (cs ! n))"
      by simp_all
    with Cons.IH later have "first_class_in e cs ans = Some (cs ! n)"
      by blast
    with c Suc show ?thesis by simp
  qed
qed


text \<open>
  Claim C8. When the lookup \<^verbatim>\<open>Label(answer)\<close> of the normalized token fails, the
  extractor tries the candidate labels in the order of \<^verbatim>\<open>classes\<close> and returns the
  first one whose value is a substring of the token: the label at position \<open>i\<close> is
  returned whenever its value occurs in the token and the value of no earlier candidate
  does, whatever later candidates would match as well.
\<close>

theorem extract_verdict_first_match:
  assumes "ans = normalized_answer (extract_last_code_span e resp)"
    and "ans \<noteq> []"
    and "Label_call e ans = Inl ValueError"
    and "i < length classes"
    and "contains ans (value_of e (classes ! i))"
    and "\<forall>j<i. \<not> contains ans (value_of e (classes ! j))"
  shows "extract_verdict e classes resp = classes ! i"
proof -
  from assms(4-6) have "first_class_in e classes ans = Some (classes ! i)"
    by (rule first_class_in_index)
  with assms(1-3) show ?thesis
    by (simp add: extract_verdict_def Let_def)
qed

text \<open>The token \<open>supported not refuted\<close> holds the values of two of the three
  candidates; REFUTED stands before SUPPORTED in the list and wins.\<close>

theorem extract_verdict_first_match_witness:
  "extract_verdict (example_env (\<lambda>k p. []) (\<lambda>k q. []) 5 2)
     [NOT_ENOUGH_INFO, REFUTED, SUPPORTED] ''The claim is `Supported, not refuted!`'' = REFUTED"
proof -
  let ?e = "example_env (\<lambda>k p. []) (\<lambda>k q. []) 5 2"
  let ?resp = "''The claim is `Supported, not refuted!`''"
  let ?cs = "[NOT_ENOUGH_INFO, REFUTED, SUPPORTED]"
  have a: "''supported not refuted'' = normalized_answer (extract_last_code_span ?e ?resp)"
    by code_simp
  have b: "''supported not refuted'' \<noteq> []" by simp
  have c: "Label_call ?e ''supported not refuted'' = Inl ValueError" by code_simp
  have d: "1 < length ?cs" by simp
  have f: "contains ''supported not refuted'' (value_of ?e (?cs ! 1))" by code_simp
  have g: "\<forall>j<1. \<not> contains ''supported not refuted'' (value_of ?e (?cs ! j))"
  proof (intro allI impI)
    fix j :: nat assume "j < 1"
    then have "j = 0" by simp
    moreover have "\<not> contains ''supported not refuted'' (value_of ?e (?cs ! 0))" by code_simp
    ultimately show "\<not> contains ''supported not refuted'' (value_of ?e (?cs ! j))" by simp
  qed
  from extract_verdict_first_match [OF a b c d f g] show ?thesis by simp
qed

subsection \<open>The retry loops that never retry\<close>

lemma maybe_get_final_answer_Some:
  "\<exists>fa. fst (maybe_get_final_answer e classes claim evidence st) = Some fa"
  by (simp add: maybe_get_final_answer_def Let_def)

lemma reason_loop_once:
  "reason_loop e classes claim evidence None 0 st =
     (fst (maybe_get_final_answer e classes claim evidence st), 1,
      snd (maybe_get_final_answer e classes claim evidence st))"
proof -
  obtain fa where fa: "fst (maybe_get_final_answer e classes claim evidence st) = Some fa"
    using maybe_get_final_answer_Some by blast
  let ?st' = "snd (maybe_get_final_answer e classes claim evidence st)"
  have "reason_loop e classes claim evidence None 0 st =
        reason_loop e classes claim evidence (Some fa) (Suc 0) ?st'"
    using fa by (subst reason_loop.simps) (simp add: split_beta)
  also have "\<dots> = (Some fa, 1, ?st')"
    by (subst reason_loop.simps) simp
  finally show ?thesis using fa by simp
qed

text \<open>
  Claim C9. \<^verbatim>\<open>Judge.maybe_get_final_answer\<close> returns a \<^verbatim>\<open>FinalAnswer\<close>, never
  \<^verbatim>\<open>None\<close>, whatever the model answers. The retry loop of \<^verbatim>\<open>Judge.reason\<close>
  therefore runs its body exactly once, whatever \<^verbatim>\<open>max_retries\<close> is, and ends with a
  final answer: the branch for \<^verbatim>\<open>final_answer is None\<close> is never taken.
\<close>

theorem final_answer_never_None:
  "fst (maybe_get_final_answer e classes claim evidence st) \<noteq> None \<and>
   reason_loop e classes claim evidence None 0 st =
     (fst (maybe_get_final_answer e classes claim evidence st), 1,
      snd (maybe_get_final_answer e classes claim evidence st)) \<and>
   fst (reason_loop e classes claim evidence None 0 st) \<noteq> None"
  using maybe_get_final_answer_Some [of e classes claim evidence st]
  by (auto simp: reason_loop_once)

lemma maybe_get_next_search_Some:
  "\<exists>s. fst (maybe_get_next_search e claim search_results summarize st) = Some s"
proof -
  obtain ns st' where m: "maybe_get_next_search e claim search_results summarize st = (ns, st')"
    by (cases "maybe_get_next_search e claim search_results summarize st")
  then have "\<exists>s. ns = Some s"
    by (auto simp: maybe_get_next_search_def Let_def split: prod.splits)
  with m show ?thesis by simp
qed

lemma next_search_loop_once:
  "next_search_loop e claim search_results summarize None 0 st =
     (fst (maybe_get_next_search e claim search_results summarize st), 1,
      snd (maybe_get_next_search e claim search_results summarize st))"
proof -
  obtain s where s: "fst (maybe_get_next_search e claim search_results summarize st) = Some s"
    using maybe_get_next_search_Some by blast
  let ?st' = "snd (maybe_get_next_search e claim search_results summarize st)"
  have "next_search_loop e claim search_results summarize None 0 st =
        next_search_loop e claim search_results summarize (Some s) (Suc 0) ?st'"
    using s by (subst next_search_loop.simps) (simp add: split_beta)
  also have "\<dots> = (Some s, 1, ?st')"
    by (subst next_search_loop.simps) simp
  finally show ?thesis using s by simp
qed

text \<open>
  Claim C10. \<^verbatim>\<open>Searcher._maybe_get_next_search\<close> returns a \<^verbatim>\<open>SearchResult\<close>, never
  \<^verbatim>\<open>None\<close>. The inner loop of \<^verbatim>\<open>Searcher.search\<close> therefore runs its body exactly
  once in every step (\<^verbatim>\<open>num_tries\<close> is 1 when it ends, the retry budget is not used),
  and a step is unsuccessful only through the second half of the test: its result is
  absent or empty.
\<close>

theorem next_search_never_None:
  "fst (maybe_get_next_search e claim search_results summarize st) \<noteq> None \<and>
   next_search_loop e claim search_results summarize None 0 st =
     (fst (maybe_get_next_search e claim search_results summarize st), 1,
      snd (maybe_get_next_search e claim search_results summarize st)) \<and>
   (\<exists>s. fst (next_search_loop e claim search_results summarize None 0 st) = Some s \<and>
        unsuccessful (Some s) = (result s = None \<or> result s = Some []))"
proof -
  obtain s where s: "fst (maybe_get_next_search e claim search_results summarize st) = Some s"
    using maybe_get_next_search_Some by blast
  have "unsuccessful (Some s) = (result s = None \<or> result s = Some [])"
    by (simp add: unsuccessful_def split: option.splits)
  with s show ?thesis by (simp add: next_search_loop_once)
qed

subsection \<open>The size of the evidence store\<close>

lemma length_search_step:
  "length (fst (search_step e claim summarize search_results st)) \<le> Suc (length search_results)"
  by (simp add: search_step_def append_search_def split: prod.splits)

lemma search_loop_bound:
  "search_loop e claim limit_search summarize n search_results steps st = (r, h, st') \<Longrightarrow>
   length search_results + n \<le> B \<Longrightarrow>
   list_all (\<lambda>x. length x \<le> B) steps \<Longrightarrow>
   length r \<le> B \<and> list_all (\<lambda>x. length x \<le> B) h"
proof (induction n arbitrary: search_results steps st)
  case 0
  then show ?case by simp
next
  case (Suc n)
  obtain s1 st1 where step: "search_step e claim summarize search_results st = (s1, st1)"
    by (cases "search_step e claim summarize search_results st")
  have "length s1 \<le> Suc (length search_results)"
    using length_search_step [of e claim summarize search_results st] step by simp
  with Suc.prems(2) have len: "length s1 + n \<le> B" by simp
  with Suc.prems(3) have steps': "list_all (\<lambda>x. length x \<le> B) (s1 # steps)" by simp
  show ?case
  proof (cases limit_search)
    case False
    with Suc.prems(1) step
    have "search_loop e claim limit_search summarize n s1 (s1 # steps) st1 = (r, h, st')"
      by simp
    from Suc.IH [OF this len steps'] show ?thesis .
  next
    case True
    obtain suff st2 where sk: "sufficient_knowledge e claim s1 st1 = (suff, st2)"
      by (cases "sufficient_knowledge e claim s1 st1")
    show ?thesis
    proof (cases suff)
      case True
      with Suc.prems(1) step sk \<open>limit_search\<close> have "r = s1" "h = s1 # steps"
        by auto
      with steps' len show ?thesis by simp
    next
      case False
      with Suc.prems(1) step sk \<open>limit_search\<close>
      have "search_loop e claim limit_search summarize n s1 (s1 # steps) st2 = (r, h, st')"
        by simp
      from Suc.IH [OF this len steps'] show ?thesis .
    qed
  qed
qed

text \<open>
  Claim C4. The evidence store that \<^verbatim>\<open>Searcher.search\<close> returns has at most
  \<^verbatim>\<open>max_steps\<close> entries, and so has the store after every single step of the session.
\<close>

theorem evidence_store_bounded:
  "length (fst (search e claim limit_search summarize st)) \<le> max_steps e \<and>
   list_all (\<lambda>x. length x \<le> max_steps e) (fst (snd (search e claim limit_search summarize st)))"
proof -
  obtain r h st' where s: "search e claim limit_search summarize st = (r, h, st')"
    by (cases "search e claim limit_search summarize st")
  then have "search_loop e claim limit_search summarize (max_steps e) [] [] st = (r, h, st')"
    by (simp add: search_def)
  from search_loop_bound [OF this, of "max_steps e"] s show ?thesis by simp
qed

subsection \<open>Exhausting the retries of the judge\<close>

lemma generate_verdict_refused:
  "no_valid_label e classes (generate e (generated st) prompt) \<Longrightarrow>
   generate_verdict e classes prompt st =
     (REFUSED_TO_ANSWER,
      st\<lparr>generated := Suc (generated st),
         latest_reasoning := Some (generate e (generated st) prompt)\<rparr>)"
proof -
  have none: "\<not> list_ex (\<lambda>c. contains a (value_of e c)) cs \<Longrightarrow> first_class_in e cs a = None"
    for a cs
    by (induction cs) auto
  have err: "\<not> list_ex (\<lambda>l. value_of e l = a) Label_members \<Longrightarrow> Label_call e a = Inl ValueError"
    for a
    by (auto simp: Label_call_def list_ex_iff find_None_iff split: option.splits)
  assume "no_valid_label e classes (generate e (generated st) prompt)"
  then have "extract_verdict e classes (generate e (generated st) prompt) = REFUSED_TO_ANSWER"
    by (auto simp: no_valid_label_def extract_verdict_def Let_def none err)
  then show ?thesis
    by (simp add: generate_verdict_def Let_def)
qed

lemma judge_loop_refused:
  "d = max_retries e - n \<Longrightarrow> n \<le> max_retries e \<Longrightarrow>
   \<forall>i\<le>d. no_valid_label e classes (generate e (generated st + i) prompt) \<Longrightarrow>
   fst (judge_loop e classes prompt n st) = REFUSED_TO_ANSWER \<and>
   generated (snd (judge_loop e classes prompt n st)) = generated st + Suc d \<and>
   latest_reasoning (snd (judge_loop e classes prompt n st)) =
     Some (generate e (generated st + d) prompt)"
proof (induction d arbitrary: n st)
  case 0
  then have "no_valid_label e classes (generate e (generated st) prompt)" by simp
  from generate_verdict_refused [OF this] 0 show ?case
    by (subst (1 2 3) judge_loop.simps) simp
next
  case (Suc d)
  let ?st' = "st\<lparr>generated := Suc (generated st),
         latest_reasoning := Some (generate e (generated st) prompt)\<rparr>"
  from Suc.prems have "no_valid_label e classes (generate e (generated st) prompt)"
    by (metis add.right_neutral le0)
  then have "generate_verdict e classes prompt st = (REFUSED_TO_ANSWER, ?st')"
    by (rule generate_verdict_refused)
  moreover from Suc.prems(1) have "\<not> max_retries e < Suc n" by arith
  ultimately
  have unfold: "judge_loop e classes prompt n st = judge_loop e classes prompt (Suc n) ?st'"
    by (subst judge_loop.simps) simp
  have "\<forall>i\<le>d. no_valid_label e classes (generate e (generated ?st' + i) prompt)"
  proof (intro allI impI)
    fix i assume "i \<le> d"
    then have "Suc i \<le> Suc d" by simp
    with Suc.prems(3) have "no_valid_label e classes (generate e (generated st + Suc i) prompt)"
      by blast
    then show "no_valid_label e classes (generate e (generated ?st' + i) prompt)" by simp
  qed
  moreover from Suc.prems have "d = max_retries e - Suc n" "Suc n \<le> max_retries e" by simp_all
  ultimately have "fst (judge_loop e classes prompt (Suc n) ?st') = REFUSED_TO_ANSWER \<and>
   generated (snd (judge_loop e classes prompt (Suc n) ?st')) = generated ?st' + Suc d \<and>
   latest_reasoning (snd (judge_loop e classes prompt (Suc n) ?st')) =
     Some (generate e (generated ?st' + d) prompt)"
    using Suc.IH by blast
  with unfold show ?case by simp
qed

text \<open>
  Claim C7. If every attempt of \<^verbatim>\<open>Judge.judge\<close> receives a response without a valid
  label, the verdict is REFUSED_TO_ANSWER and the judge has generated exactly
  \<open>1 + max_retries\<close> times: three times for \<^verbatim>\<open>max_retries = 2\<close>.
\<close>

theorem judge_exhaustion:
  assumes "\<forall>i\<le>max_retries e.
             no_valid_label e classes (generate e (generated st + i) (JudgePrompt e doc classes))"
  shows "fst (judge e classes doc st) = REFUSED_TO_ANSWER \<and>
         generated (snd (judge e classes doc st)) = generated st + (1 + max_retries e)"
  using judge_loop_refused [of "max_retries e" e 0 classes st "JudgePrompt e doc classes"] assms
  by (simp add: judge_def)

text \<open>With \<^verbatim>\<open>max_retries = 2\<close> and a model that always answers "I do not know", the
  judge ends with REFUSED_TO_ANSWER after three generations.\<close>

theorem judge_exhaustion_witness:
  "max_retries (example_env (\<lambda>k p. ''I do not know'') (\<lambda>k q. []) 5 2) = 2 \<and>
   fst (judge (example_env (\<lambda>k p. ''I do not know'') (\<lambda>k q. []) 5 2)
          [SUPPORTED, REFUTED] ''The sky is green.'' start) = REFUSED_TO_ANSWER \<and>
   generated (snd (judge (example_env (\<lambda>k p. ''I do not know'') (\<lambda>k q. []) 5 2)
          [SUPPORTED, REFUTED] ''The sky is green.'' start)) = 3"
proof -
  let ?e = "example_env (\<lambda>k p. ''I do not know'') (\<lambda>k q. []) 5 2"
  have g: "generate ?e k p = ''I do not know''" for k p
    by (simp add: example_env_def)
  have n: "no_valid_label ?e [SUPPORTED, REFUTED] ''I do not know''"
    by code_simp
  have m: "max_retries ?e = 2" by (simp add: example_env_def)
  have s: "generated start = 0" by (simp add: start_def)
  from judge_exhaustion [of ?e "[SUPPORTED, REFUTED]" start "''The sky is green.''"] g n m s
  show ?thesis by simp
qed


subsection \<open>Stopping the search early\<close>

lemma sufficient_knowledge_eq:
  "sufficient_knowledge e claim past_searches st =
     (lower (generate e (generated st) (sufficiency_prompt claim past_searches)) = ''sufficient'',
      st\<lparr>generated := Suc (generated st)\<rparr>)"
  by (simp add: sufficient_knowledge_def Let_def)

lemma search_loop_limited:
  "search_loop e claim True summarize (Suc n) search_results steps st =
     (let (search_results', st') = search_step e claim summarize search_results st;
          model_decision = generate e (generated st') (sufficiency_prompt claim search_results');
          st'' = st'\<lparr>generated := Suc (generated st')\<rparr>
      in if lower model_decision = ''sufficient''
         then (search_results', search_results' # steps, st'')
         else search_loop e claim True summarize n search_results' (search_results' # steps) st'')"
  by (simp add: sufficient_knowledge_eq Let_def split: prod.splits)

text \<open>
  Claim C6. With \<^verbatim>\<open>limit_search\<close> set, the loop stops after a step exactly when the
  answer to the sufficiency question, put in lower case, is \<open>sufficient\<close>; with any
  other answer it goes on with the next step. If the answer is not \<open>sufficient\<close> after
  the first step and is \<open>sufficient\<close> after the second, the session performs exactly two
  search steps and returns the store of the second.
\<close>

theorem stop_iff_sufficient:
  assumes "search_step e claim summarize [] st = (s1, st1)"
    and "lower (generate e (generated st1) (sufficiency_prompt claim s1)) \<noteq> ''sufficient''"
    and "search_step e claim summarize s1 (st1\<lparr>generated := Suc (generated st1)\<rparr>) = (s2, st2)"
    and "lower (generate e (generated st2) (sufficiency_prompt claim s2)) = ''sufficient''"
    and "2 \<le> max_steps e"
  shows "search_loop e claim True summarize (Suc n) search_results steps st0 =
     (let (search_results', st') = search_step e claim summarize search_results st0;
          model_decision = generate e (generated st') (sufficiency_prompt claim search_results');
          st'' = st'\<lparr>generated := Suc (generated st')\<rparr>
      in if lower model_decision = ''sufficient''
         then (search_results', search_results' # steps, st'')
         else search_loop e claim True summarize n search_results' (search_results' # steps) st'')
   \<and> fst (search e claim True summarize st) = s2
   \<and> length (fst (snd (search e claim True summarize st))) = 2"
proof -
  from assms(5) obtain m where m: "max_steps e = Suc (Suc m)"
    by (metis Suc_le_D numeral_2_eq_2 Suc_le_mono)
  have one: "search_loop e claim True summarize (Suc (Suc m)) [] [] st =
        search_loop e claim True summarize (Suc m) s1 [s1] (st1\<lparr>generated := Suc (generated st1)\<rparr>)"
    using assms(1,2) by (subst search_loop_limited) (simp add: Let_def)
  have two: "search_loop e claim True summarize (Suc m) s1 [s1] (st1\<lparr>generated := Suc (generated st1)\<rparr>) =
        (s2, [s2, s1], st2\<lparr>generated := Suc (generated st2)\<rparr>)"
    using assms(3,4) by (subst search_loop_limited) (simp add: Let_def)
  from one two m have "search e claim True summarize st =
      (s2, [s2, s1], st2\<lparr>generated := Suc (generated st2)\<rparr>)"
    by (simp add: search_def)
  then show ?thesis
    using search_loop_limited [of e claim summarize n search_results steps st0] by simp
qed

text \<open>The scenario itself: "insufficient" after the first search, "Sufficient"
  after the second.\<close>

theorem stop_iff_sufficient_witness:
  "2 \<le> max_steps (example_env sky_model sky_backend 5 2) \<and>
   fst (search (example_env sky_model sky_backend 5 2) ''The sky is green.'' True True start) =
     [\<lparr>query = ''sky color'', result = Some ''Result for sky color''\<rparr>,
      \<lparr>query = ''why is the sky blue'', result = Some ''Result for why is the sky blue''\<rparr>] \<and>
   length (fst (snd (search (example_env sky_model sky_backend 5 2)
                       ''The sky is green.'' True True start))) = 2"
proof -
  let ?e = "example_env sky_model sky_backend 5 2"
  let ?c = "''The sky is green.''"
  let ?s1 = "[\<lparr>query = ''sky color'', result = Some ''Result for sky color''\<rparr>]"
  let ?st1 = "\<lparr>generated = 1, searched = 1, latest_reasoning = None\<rparr>"
  let ?s2 = "[\<lparr>query = ''sky color'', result = Some ''Result for sky color''\<rparr>,
      \<lparr>query = ''why is the sky blue'', result = Some ''Result for why is the sky blue''\<rparr>]"
  let ?st2 = "\<lparr>generated = 3, searched = 2, latest_reasoning = None\<rparr>"
  have a: "search_step ?e ?c True [] start = (?s1, ?st1)" by code_simp
  have b: "lower (generate ?e (generated ?st1) (sufficiency_prompt ?c ?s1)) \<noteq> ''sufficient''"
    by code_simp
  have c: "search_step ?e ?c True ?s1 (?st1\<lparr>generated := Suc (generated ?st1)\<rparr>) = (?s2, ?st2)"
    by code_simp
  have d: "lower (generate ?e (generated ?st2) (sufficiency_prompt ?c ?s2)) = ''sufficient''"
    by code_simp
  have f: "2 \<le> max_steps ?e" by code_simp
  from stop_iff_sufficient [OF a b c d f] f show ?thesis by simp
qed


subsection \<open>A step whose result is a duplicate\<close>

text \<open>
  Claim C3 fails on this run of two steps. The first step has stored the query
  \<open>sky color\<close> with the result "The sky is blue."; the second step proposes the
  new query \<open>blue sky\<close> and receives the same result. \<^verbatim>\<open>_maybe_get_next_search\<close>
  builds the pair of the query and an absent result, as its comment "But keep query to
  avoid future duplicates" says; \<^verbatim>\<open>search\<close> then takes the absent result for an
  unsuccessful step and does not append the pair. The store after the step, and the
  store that \<^verbatim>\<open>search\<close> returns after its two steps, hold the first entry only: the
  query \<open>blue sky\<close> is not kept.
\<close>

theorem failed_step_not_appended:
  "fst (maybe_get_next_search (example_env two_query_model same_backend 2 2) ''The sky is green.''
         [\<lparr>query = ''sky color'', result = Some ''The sky is blue.''\<rparr>] True
         \<lparr>generated = 1, searched = 1, latest_reasoning = None\<rparr>)
     = Some \<lparr>query = ''blue sky'', result = None\<rparr> \<and>
   fst (search_step (example_env two_query_model same_backend 2 2) ''The sky is green.'' True
         [\<lparr>query = ''sky color'', result = Some ''The sky is blue.''\<rparr>]
         \<lparr>generated = 1, searched = 1, latest_reasoning = None\<rparr>)
     = [\<lparr>query = ''sky color'', result = Some ''The sky is blue.''\<rparr>] \<and>
   search (example_env two_query_model same_backend 2 2) ''The sky is green.'' False True start =
     ([\<lparr>query = ''sky color'', result = Some ''The sky is blue.''\<rparr>],
      [[\<lparr>query = ''sky color'', result = Some ''The sky is blue.''\<rparr>],
       [\<lparr>query = ''sky color'', result = Some ''The sky is blue.''\<rparr>]],
      \<lparr>generated = 2, searched = 2, latest_reasoning = None\<rparr>)"
  by code_simp

subsection \<open>A fault in the reasoner\<close>

text \<open>
  Claim C1 fails on \<^verbatim>\<open>Reasoner.reason\<close>. The model answers "I do not know": the
  response does not start with "I cannot" and holds no label in square brackets, so
  the last branch of \<^verbatim>\<open>Reasoner.maybe_get_final_answer\<close> is taken, where the unbound
  name \<^verbatim>\<open>labels\<close> raises NameError. No label is returned.
\<close>

theorem Reasoner_reason_NameError:
  "Reasoner_reason (example_env unsure_model same_backend 5 2) ''The sky is green.'' [] start
     = Inl NameError"
  by code_simp

subsection \<open>A query stored twice\<close>

text \<open>
  Claim C5 fails on this run of two steps with summaries switched on. The model
  proposes the query \<open>sky color\<close> in both steps; in the second step the query is found
  among the past queries, the model is asked for a different one and answers
  \<open>sky color\<close> again, which is searched without a second look. The backend returns the
  same long text as before, but the store holds the summary of that text, so the result
  is not recognised as a duplicate: it is summarised and appended. The store ends with
  two entries for the query \<open>sky color\<close>.
\<close>

theorem duplicate_query_stored:
  "fst (search (example_env repeating_model long_backend 2 2) ''The sky is green.'' False True start) =
     [\<lparr>query = ''sky color'', result = Some ''The sky is blue.''\<rparr>,
      \<lparr>query = ''sky color'', result = Some ''The sky looks blue.''\<rparr>] \<and>
   \<not> distinct (map query (fst (search (example_env repeating_model long_backend 2 2)
                                   ''The sky is green.'' False True start)))"
  by code_simp

end
